theory Spec2Isabelle
  imports Complex_Main
begin

section \<open>Python values, exceptions and the remote service\<close>

text \<open>
  The workflow file \<^verbatim>\<open>src/workflow/model_maintenance.py\<close> talks to the application
  through \<^verbatim>\<open>requests.post\<close>, passes values between tasks through XCom and writes log lines.
  Exceptions are values of \<open>pyerror\<close>; a Python float is a real number here (only
  \<open>>=\<close> is ever applied to one).
\<close>

datatype pyerror =
    NameError string
  | AttributeError string string
  | TypeError string
  | IndexError
  | ConnectionError
  | JSONDecodeError
  | HTTPException int
  | FileNotFoundError
  | IsADirectoryError

datatype pyval = PNone | PStr string | PFloat real

text \<open>
  A \<^verbatim>\<open>requests.Response\<close>: its status code, its text and, when the body is a JSON
  object, the decoded object. The class has the attributes \<^verbatim>\<open>status_code\<close>,
  \<^verbatim>\<open>text\<close> and the method \<^verbatim>\<open>json()\<close>; it has no attribute \<^verbatim>\<open>values\<close>, no
  conversion to float and no ordering.
\<close>

record response =
  status_code :: int
  body_text :: string
  body :: "(string \<times> pyval) list option"

datatype level = INFO | ERROR

text \<open>
  What a run leaves behind: the requests issued (URL and \<^verbatim>\<open>Authorization\<close> header, in
  order), the XCom writes (task id and key, with the value, in order) and the log lines
  (level and the fixed part of the message).
\<close>

record world =
  posts :: "(string \<times> string option) list"
  xcom :: "((string \<times> string) \<times> pyval) list"
  logs :: "(level \<times> string) list"

text \<open>
  The module-level names read from Airflow Variables at import time (lines 19 to 23), and
  what the callables find around them: the Variable store, Python's \<^verbatim>\<open>float\<close> on a
  \<^verbatim>\<open>str\<close>, and the service, which answers the \<open>n\<close>-th request of a run (counted from
  0) to a URL with a response or with a transport error.
\<close>

record globals =
  admin_username :: string
  admin_password :: string
  api_url :: string
  current_accuracy :: string
  accuracy_threshold :: string

record airflow_env =
  variables :: "string \<Rightarrow> string option"
  float_of_str :: "string \<Rightarrow> pyerror + real"
  remote :: "nat \<Rightarrow> string \<Rightarrow> pyerror + response"

type_synonym 'a py = "world \<Rightarrow> (pyerror + 'a) \<times> world"

definition py_return :: "'a \<Rightarrow> 'a py" where
  "py_return v w = (Inr v, w)"

definition py_lift :: "pyerror + 'a \<Rightarrow> 'a py" where
  "py_lift r w = (r, w)"

definition py_bind :: "'a py \<Rightarrow> ('a \<Rightarrow> 'b py) \<Rightarrow> 'b py" where
  "py_bind m f w = (case m w of (Inl e, w') \<Rightarrow> (Inl e, w') | (Inr v, w') \<Rightarrow> f v w')"

definition requests_post :: "airflow_env \<Rightarrow> string \<Rightarrow> string option \<Rightarrow> response py" where
  "requests_post e url auth w =
     (remote e (length (posts w)) url, w\<lparr>posts := posts w @ [(url, auth)]\<rparr>)"

definition xcom_push :: "string \<Rightarrow> string \<Rightarrow> pyval \<Rightarrow> unit py" where
  "xcom_push ti key v w = (Inr (), w\<lparr>xcom := xcom w @ [((ti, key), v)]\<rparr>)"

definition xcom_pull :: "string \<Rightarrow> string \<Rightarrow> pyval py" where
  "xcom_pull task_ids key w =
     (case map_of (rev (xcom w)) (task_ids, key) of None \<Rightarrow> (Inr PNone, w) | Some v \<Rightarrow> (Inr v, w))"

definition logging :: "level \<Rightarrow> string \<Rightarrow> unit py" where
  "logging l msg w = (Inr (), w\<lparr>logs := logs w @ [(l, msg)]\<rparr>)"

definition py_str :: "pyval \<Rightarrow> string" where
  "py_str v = (case v of PNone \<Rightarrow> ''None'' | PStr s \<Rightarrow> s | PFloat r \<Rightarrow> ''<float>'')"

definition bearer :: "pyval \<Rightarrow> string option" where
  "bearer token = Some (''Bearer '' @ py_str token)"

definition response_json :: "response \<Rightarrow> pyerror + (string \<times> pyval) list" where
  "response_json r = (case body r of None \<Rightarrow> Inl JSONDecodeError | Some d \<Rightarrow> Inr d)"

definition dict_get :: "(string \<times> pyval) list \<Rightarrow> string \<Rightarrow> pyval" where
  "dict_get d k = (case map_of d k of None \<Rightarrow> PNone | Some v \<Rightarrow> v)"

text \<open>The operations the source applies to objects that do not support them.\<close>

definition float_of_Response :: "response \<Rightarrow> pyerror + real" where
  "float_of_Response r = Inl (TypeError ''float() argument must be a string or a real number, not Response'')"

definition Response_ge :: "response \<Rightarrow> real \<Rightarrow> pyerror + bool" where
  "Response_ge r t = Inl (TypeError ''>= not supported between instances of Response and float'')"

definition str_status_code :: "string \<Rightarrow> pyerror + int" where
  "str_status_code s = Inl (AttributeError ''str'' ''status_code'')"

definition Response_values :: "response \<Rightarrow> pyerror + (string \<times> pyval) list" where
  "Response_values r = Inl (AttributeError ''Response'' ''values'')"

definition py_float :: "airflow_env \<Rightarrow> pyval \<Rightarrow> pyerror + real" where
  "py_float e v =
     (case v of
        PNone \<Rightarrow> Inl (TypeError ''float() argument must be a string or a real number, not NoneType'')
      | PStr s \<Rightarrow> float_of_str e s
      | PFloat r \<Rightarrow> Inr r)"

text \<open>\<^verbatim>\<open>float(Variable.get("accuracy_threshold", default_var=85))\<close>\<close>

definition threshold :: "airflow_env \<Rightarrow> pyerror + real" where
  "threshold e =
     (case variables e ''accuracy_threshold'' of None \<Rightarrow> Inr 85 | Some s \<Rightarrow> float_of_str e s)"

section \<open>The task callables\<close>

text \<open>
  Each callable takes the module globals, its surroundings and the id of the task instance
  that runs it (\<^verbatim>\<open>kwargs['ti']\<close>), and returns its result or the exception it raises,
  with the world as it left it.
\<close>

definition get_jwt_token :: "globals \<Rightarrow> airflow_env \<Rightarrow> string \<Rightarrow> pyval py" where
  "get_jwt_token g e ti =
     py_bind (requests_post e (api_url g @ ''/token'') None) (\<lambda>response.
       if status_code response = 200 then
         py_bind (py_lift (response_json response)) (\<lambda>js.
         let token = dict_get js ''access_token'' in
         py_bind (xcom_push ti ''token'' token) (\<lambda>_.
         py_return token))
       else
         py_bind (logging ERROR ''Error obtaining JWT token'') (\<lambda>_.
         py_return PNone))"

definition recharge_data :: "globals \<Rightarrow> airflow_env \<Rightarrow> string \<Rightarrow> pyval py" where
  "recharge_data g e ti =
     py_bind (xcom_pull ''get_jwt_token'' ''token'') (\<lambda>token.
     let raw_url = api_url g @ ''/raw'';
         dataset_url = api_url g @ ''/dataset'';
         headers = bearer token in
     py_bind (requests_post e raw_url headers) (\<lambda>resp_raw.
     py_bind (requests_post e dataset_url headers) (\<lambda>resp_dataset.
     py_bind (if status_code resp_raw = 200
              then logging INFO ''Raw data have been imported with success.''
              else logging ERROR ''Error when importing raw data'') (\<lambda>_.
     py_bind (if status_code resp_dataset = 200
              then logging INFO ''Data have been processed with success''
              else logging ERROR ''Error when processing raw data'') (\<lambda>_.
     py_return PNone)))))"

definition nope :: "globals \<Rightarrow> airflow_env \<Rightarrow> string \<Rightarrow> pyval py" where
  "nope g e ti = py_return PNone"

definition Check_accuracy :: "globals \<Rightarrow> airflow_env \<Rightarrow> string \<Rightarrow> pyval py" where
  "Check_accuracy g e ti =
     py_bind (xcom_pull ''get_jwt_token'' ''token'') (\<lambda>token.
     let accuracy_url = api_url g @ ''/accuracy'';
         headers = bearer token in
     py_bind (requests_post e accuracy_url headers) (\<lambda>resp_accuracy.
     py_bind (py_lift (float_of_Response resp_accuracy)) (\<lambda>v.
     py_bind (xcom_push ti ''current_accuracy'' (PFloat v)) (\<lambda>_.
     py_bind (logging INFO ''Checking accuracy difference... Current accuracy'') (\<lambda>_.
     py_bind (py_lift (threshold e)) (\<lambda>accuracy_threshold.
     py_bind (py_lift (Response_ge resp_accuracy accuracy_threshold)) (\<lambda>above.
       if above then
         py_bind (logging INFO ''Accuracy based on new data is above threshold then we do nothing.'') (\<lambda>_.
         py_return (PStr ''nope''))
       else
         py_bind (logging INFO ''Accuracy based on new data is under threshold thne we proceed to backup.'') (\<lambda>_.
         py_return (PStr ''backup'')))))))))"

definition backup :: "globals \<Rightarrow> airflow_env \<Rightarrow> string \<Rightarrow> pyval py" where
  "backup g e ti =
     py_bind (xcom_pull ''get_jwt_token'' ''token'') (\<lambda>token.
     let backup_url = api_url g @ ''/backup'';
         headers = bearer token in
     py_bind (requests_post e backup_url headers) (\<lambda>resp_backup.
     py_bind (if status_code resp_backup = 200
              then logging INFO ''Current model has been saved as a backup with success.''
              else logging ERROR ''Error when saving current model'') (\<lambda>_.
     py_return PNone)))"

definition retrain :: "globals \<Rightarrow> airflow_env \<Rightarrow> string \<Rightarrow> pyval py" where
  "retrain g e ti =
     py_bind (xcom_pull ''get_jwt_token'' ''token'') (\<lambda>token.
     let train_url = api_url g @ ''/train'';
         accuracy_url = api_url g @ ''/accuracy'';
         headers = bearer token in
     py_bind (requests_post e train_url headers) (\<lambda>resp_train.
     py_bind (if status_code resp_train = 200
              then logging INFO ''Model has been trained and saved with success.''
              else logging ERROR ''Error while training the model. Unable to save it'') (\<lambda>_.
     py_bind (requests_post e accuracy_url headers) (\<lambda>resp_accuracy.
     py_bind (py_lift (str_status_code accuracy_url)) (\<lambda>code.
       if code = 200 then
         py_bind (py_lift (float_of_Response resp_accuracy)) (\<lambda>v.
         py_bind (xcom_push ti ''current_accuracy'' (PFloat v)) (\<lambda>_.
         py_bind (logging INFO ''Accuracy has been updated with success.'') (\<lambda>_.
         py_return PNone)))
       else
         py_bind (py_lift (str_status_code accuracy_url)) (\<lambda>_.
         py_bind (logging ERROR ''Error while updating accuracy'') (\<lambda>_.
         py_return PNone)))))))"

definition validate :: "globals \<Rightarrow> airflow_env \<Rightarrow> string \<Rightarrow> pyval py" where
  "validate g e ti =
     py_bind (xcom_pull ''get_jwt_token'' ''token'') (\<lambda>token.
     let accuracy_url = api_url g @ ''/accuracy'';
         reverse_backup_url = api_url g @ ''/reverse_backup'';
         headers = bearer token in
     py_bind (requests_post e accuracy_url headers) (\<lambda>resp_accuracy.
     py_bind (if status_code resp_accuracy = 200
              then logging INFO ''Accuracy retrieved with success.''
              else logging ERROR ''Error while retrieveing accuracy'') (\<lambda>_.
     py_bind (py_lift (Response_values resp_accuracy)) (\<lambda>vals.
     py_bind (py_lift (py_float e (dict_get vals ''accuracy''))) (\<lambda>v.
     py_bind (xcom_push ti ''current_accuracy'' (PFloat v)) (\<lambda>_.
     py_bind (logging INFO ''Checking accuracy difference... Current accuracy'') (\<lambda>_.
     py_bind (py_lift (threshold e)) (\<lambda>accuracy_threshold.
     py_bind (py_lift (Response_values resp_accuracy)) (\<lambda>vals'.
     py_bind (py_lift (py_float e (dict_get vals' ''accuracy''))) (\<lambda>a.
       if a \<ge> accuracy_threshold then
         py_bind (logging INFO ''Accuracy of the new model is above the threshold then we keep the new model.'') (\<lambda>_.
         py_return (PStr ''email_success''))
       else
         py_bind (logging INFO ''Accuracy of the new model is under the threshold then we keep the current model.'') (\<lambda>_.
         py_bind (requests_post e accuracy_url headers) (\<lambda>resp_accuracy'.
         py_bind (logging INFO ''Reversing models... Retrieving current model.'') (\<lambda>_.
         py_bind (py_lift (str_status_code reverse_backup_url)) (\<lambda>code.
         py_bind (if code = 200
                  then logging INFO ''Model reversed with success.''
                  else py_bind (py_lift (str_status_code reverse_backup_url)) (\<lambda>_.
                       logging ERROR ''Error while reversing model'')) (\<lambda>_.
         py_return (PStr ''email_failure''))))))))))))))))"

section \<open>The module: operators and dependency statements\<close>

text \<open>
  Lines 277 to 394 create nine operators in the DAG and bind them to module-level names;
  lines 401 and 402 wire them with \<^verbatim>\<open>>>\<close>. A \<open>task\<close> keeps what the operator call
  passes: the task id, the operator class, the name of the callable, the trigger rule
  (\<^verbatim>\<open>TriggerRule.ALL_SUCCESS\<close> where given, which is also the default) and, for an
  e-mail operator, the recipient, the subject and the HTML template, cut at its template
  expression (the white space between tags is left out).
\<close>

datatype operator = PythonOperator | BranchPythonOperator | EmailOperator

datatype trigger_rule = ALL_SUCCESS | ONE_SUCCESS

datatype segment = Html string | Jinja string

record email_args =
  to_addr :: string
  subject :: string
  html_content :: "segment list"

record task =
  task_id :: string
  operator :: operator
  python_callable :: string
  trigger :: trigger_rule
  email :: "email_args option"

record dag =
  tasks :: "task list"
  edges :: "(string \<times> string) list"

datatype expr = Name string | ListOf "string list"

datatype stmt = Assign string task | Chain expr "expr list"

datatype operand = OTask task | OList "task list"

type_synonym namespace = "(string \<times> task) list"

definition lookup_name :: "namespace \<Rightarrow> string \<Rightarrow> pyerror + task" where
  "lookup_name ns n = (case map_of ns n of None \<Rightarrow> Inl (NameError n) | Some t \<Rightarrow> Inr t)"

fun lookup_names :: "namespace \<Rightarrow> string list \<Rightarrow> pyerror + task list" where
  "lookup_names ns [] = Inr []"
| "lookup_names ns (n # rest) =
     (case lookup_name ns n of
        Inl x \<Rightarrow> Inl x
      | Inr t \<Rightarrow> (case lookup_names ns rest of Inl x \<Rightarrow> Inl x | Inr ts \<Rightarrow> Inr (t # ts)))"

fun eval_expr :: "namespace \<Rightarrow> expr \<Rightarrow> pyerror + operand" where
  "eval_expr ns (Name n) = (case lookup_name ns n of Inl x \<Rightarrow> Inl x | Inr t \<Rightarrow> Inr (OTask t))"
| "eval_expr ns (ListOf l) = (case lookup_names ns l of Inl x \<Rightarrow> Inl x | Inr ts \<Rightarrow> Inr (OList ts))"

text \<open>
  \<^verbatim>\<open>a >> b\<close>: the left operand becomes upstream of the right one. An operator on the left
  returns the right operand; a list on the left is handled by the operator on the right
  (\<^verbatim>\<open>__rrshift__\<close>), which returns itself; two lists have no \<^verbatim>\<open>>>\<close>.
\<close>

fun rshift :: "operand \<Rightarrow> operand \<Rightarrow> pyerror + (string \<times> string) list \<times> operand" where
  "rshift (OTask a) (OTask b) = Inr ([(task_id a, task_id b)], OTask b)"
| "rshift (OTask a) (OList bs) = Inr (map (\<lambda>b. (task_id a, task_id b)) bs, OList bs)"
| "rshift (OList as) (OTask b) = Inr (map (\<lambda>a. (task_id a, task_id b)) as, OTask b)"
| "rshift (OList as) (OList bs) = Inl (TypeError ''unsupported operand type(s) for >>: list and list'')"

text \<open>
  \<^verbatim>\<open>e0 >> e1 >> e2\<close> is \<^verbatim>\<open>(e0 >> e1) >> e2\<close>: the operands are evaluated from left to
  right, each \<^verbatim>\<open>>>\<close> applied as soon as its right operand is known.
\<close>

fun eval_chain :: "namespace \<Rightarrow> operand \<Rightarrow> expr list \<Rightarrow> (string \<times> string) list
    \<Rightarrow> pyerror + (string \<times> string) list" where
  "eval_chain ns left [] es = Inr es"
| "eval_chain ns left (x # rest) es =
     (case eval_expr ns x of
        Inl err \<Rightarrow> Inl err
      | Inr right \<Rightarrow>
          (case rshift left right of
             Inl err \<Rightarrow> Inl err
           | Inr (new, res) \<Rightarrow> eval_chain ns res rest (es @ new)))"

fun exec_stmt :: "namespace \<times> dag \<Rightarrow> stmt \<Rightarrow> pyerror + namespace \<times> dag" where
  "exec_stmt (ns, d) (Assign n t) = Inr ((n, t) # ns, d\<lparr>tasks := tasks d @ [t]\<rparr>)"
| "exec_stmt (ns, d) (Chain x rest) =
     (case eval_expr ns x of
        Inl err \<Rightarrow> Inl err
      | Inr left \<Rightarrow>
          (case eval_chain ns left rest (edges d) of
             Inl err \<Rightarrow> Inl err
           | Inr es \<Rightarrow> Inr (ns, d\<lparr>edges := es\<rparr>)))"

fun exec_stmts :: "namespace \<times> dag \<Rightarrow> stmt list \<Rightarrow> pyerror + namespace \<times> dag" where
  "exec_stmts st [] = Inr st"
| "exec_stmts st (x # rest) =
     (case exec_stmt st x of Inl err \<Rightarrow> Inl err | Inr st' \<Rightarrow> exec_stmts st' rest)"

definition exec_module :: "stmt list \<Rightarrow> pyerror + dag" where
  "exec_module m =
     (case exec_stmts ([], \<lparr>tasks = [], edges = []\<rparr>) m of
        Inl err \<Rightarrow> Inl err
      | Inr (ns, d) \<Rightarrow> Inr d)"

text \<open>Lines 277 to 394: \<^verbatim>\<open>t1\<close> to \<^verbatim>\<open>t7_2\<close>.\<close>

definition operators :: "stmt list" where
  \<open>operators =
     [Assign ''t1'' \<lparr>task_id = ''get_jwt_token'', operator = PythonOperator,
        python_callable = ''get_jwt_token'', trigger = ALL_SUCCESS, email = None\<rparr>,
      Assign ''t2'' \<lparr>task_id = ''recharge_data'', operator = PythonOperator,
        python_callable = ''recharge_data'', trigger = ALL_SUCCESS, email = None\<rparr>,
      Assign ''t3'' \<lparr>task_id = ''Check_accuracy'', operator = BranchPythonOperator,
        python_callable = ''Check_accuracy'', trigger = ALL_SUCCESS, email = None\<rparr>,
      Assign ''t4_1'' \<lparr>task_id = ''backup'', operator = PythonOperator,
        python_callable = ''backup'', trigger = ALL_SUCCESS, email = None\<rparr>,
      Assign ''t4_2'' \<lparr>task_id = ''nope'', operator = PythonOperator,
        python_callable = ''nope'', trigger = ALL_SUCCESS, email = None\<rparr>,
      Assign ''t5'' \<lparr>task_id = ''retrain'', operator = PythonOperator,
        python_callable = ''retrain'', trigger = ALL_SUCCESS, email = None\<rparr>,
      Assign ''t6'' \<lparr>task_id = ''validate'', operator = BranchPythonOperator,
        python_callable = ''validate'', trigger = ALL_SUCCESS, email = None\<rparr>,
      Assign ''t7_1'' \<lparr>task_id = ''email_success'', operator = EmailOperator,
        python_callable = [], trigger = ALL_SUCCESS,
        email = Some \<lparr>to_addr = ''immocb@hotmail.com'',
          subject = ''Model retrained with success'',
          html_content =
            [Html ''<h3>Model retraining succeeded</h3><p>Retraining information:</p><ul><li>Accuracy of the model in production (reference): '',
             Jinja ''Variable.get("accuracy_threshold", default_var=85)'',
             Html ''%</li></ul><p>Please see the logs for more details.</p>'']\<rparr>\<rparr>,
      Assign ''t7_2'' \<lparr>task_id = ''email_failure'', operator = EmailOperator,
        python_callable = [], trigger = ALL_SUCCESS,
        email = Some \<lparr>to_addr = ''immocb@hotmaiml.com'',
          subject = ''Model retraining failed'',
          html_content =
            [Html ''<h3>Model retraining failed</h3><p>Model retraining failed during validation. Here are some details:</p><ul><li>Accuracy of the model in production (reference): '',
             Jinja ''Variable.get("accuracy_threshold", default_var=85)'',
             Html ''%</li></ul><p>Please check the logs and correct any identified issues.</p>'']\<rparr>\<rparr>]\<close>

text \<open>Lines 401 and 402, as written.\<close>

definition dependencies :: "stmt list" where
  "dependencies =
     [Chain (Name ''t_1'') [Name ''t_2'', Name ''t_3'', ListOf [''t4_1'', ''t4_2'']],
      Chain (Name ''t4_1'') [Name ''t5'', Name ''t6'', ListOf [''t7_1'', ''t7_2'']]]"

definition workflow_module :: "stmt list" where
  "workflow_module = operators @ dependencies"

text \<open>
  The module when the nine operators have been created (line 394), before the first
  dependency statement is evaluated.
\<close>

definition after_operators :: "pyerror + namespace \<times> dag" where
  "after_operators = exec_stmts ([], \<lparr>tasks = [], edges = []\<rparr>) operators"

section \<open>The retry policy\<close>

text \<open>
  The DAG's \<^verbatim>\<open>default_args\<close> (lines 31 to 37): \<^verbatim>\<open>'retries': 3\<close> and
  \<^verbatim>\<open>'retry_delay': timedelta(minutes=5)\<close>, the delay in seconds here. A task is tried
  once and retried at most \<open>retries\<close> times, so it is attempted at most \<open>retries + 1\<close>
  times.
\<close>

record default_args =
  retries :: nat
  retry_delay :: nat

definition dag_default_args :: default_args where
  "dag_default_args = \<lparr>retries = 3, retry_delay = 300\<rparr>"

definition max_attempts :: "default_args \<Rightarrow> nat" where
  "max_attempts a = Suc (retries a)"

text \<open>
  Modelled from the spec: the retry policy of section 4.3, which the repository leaves to
  the workflow framework. A node is attempted until its callable returns, at most a given
  number of times, with a fixed delay between two attempts; when every attempt raised, the
  retries are exhausted, the last error is kept and the node is failed; a node whose
  callable returns has succeeded. The trace records the attempts and the waits.
\<close>

datatype status = Succeeded | Failed

datatype exec_event = Attempt string | Wait nat

fun retry :: "nat \<Rightarrow> nat \<Rightarrow> string \<Rightarrow> pyval py \<Rightarrow> world \<Rightarrow> exec_event list
    \<Rightarrow> (pyerror option + pyval) \<times> world \<times> exec_event list" where
  "retry 0 delay tid f w tr = (Inl None, w, tr)"
| "retry (Suc k) delay tid f w tr =
     (case f w of
        (Inr v, w') \<Rightarrow> (Inr v, w', tr @ [Attempt tid])
      | (Inl err, w') \<Rightarrow>
          if k = 0 then (Inl (Some err), w', tr @ [Attempt tid])
          else retry k delay tid f w' (tr @ [Attempt tid, Wait delay]))"

definition run_node :: "nat \<Rightarrow> nat \<Rightarrow> string \<Rightarrow> pyval py \<Rightarrow> world
    \<Rightarrow> status \<times> world \<times> exec_event list" where
  "run_node n delay tid f w =
     (case retry n delay tid f w [] of
        (Inl err, w', tr) \<Rightarrow> (Failed, w', tr)
      | (Inr v, w', tr) \<Rightarrow> (Succeeded, w', tr))"

text \<open>The events of \<open>n\<close> attempts on a node, with the delay between two of them.\<close>

fun attempts_trace :: "nat \<Rightarrow> nat \<Rightarrow> string \<Rightarrow> exec_event list" where
  "attempts_trace 0 delay tid = []"
| "attempts_trace (Suc 0) delay tid = [Attempt tid]"
| "attempts_trace (Suc (Suc k)) delay tid = Attempt tid # Wait delay # attempts_trace (Suc k) delay tid"

text \<open>The callables of the module that issue requests (all but \<open>nope\<close>).\<close>

definition requesting_callables :: "(globals \<Rightarrow> airflow_env \<Rightarrow> string \<Rightarrow> pyval py) list" where
  "requesting_callables = [get_jwt_token, recharge_data, Check_accuracy, backup, retrain, validate]"

section \<open>The application's backup and restore routes\<close>

text \<open>
  \<^verbatim>\<open>src/app/main.py\<close>, lines 241 to 274. The model store is the current model file
  \<^verbatim>\<open>./src/models/trained_model.joblib\<close> (its contents, when it exists) and the entries of
  \<^verbatim>\<open>./src/models/archives/\<close> in the order the directory lists them: each is a directory
  \<^verbatim>\<open>archive -<timestamp>\<close> holding the copy made into it. Whether \<^verbatim>\<open>get_user\<close> found the
  caller is a parameter, as is the clock.
\<close>

record model_store =
  current_model :: "string option"
  archives :: "(string \<times> string option) list"

definition shutil_copy_into :: "string option \<Rightarrow> string \<Rightarrow> model_store
    \<Rightarrow> (pyerror + unit) \<times> model_store" where
  "shutil_copy_into src dir st =
     (case src of
        None \<Rightarrow> (Inl FileNotFoundError, st)
      | Some m \<Rightarrow> (Inr (), st\<lparr>archives := map (\<lambda>a. if fst a = dir then (dir, Some m) else a) (archives st)\<rparr>))"

definition mkdir_exist_ok :: "string \<Rightarrow> model_store \<Rightarrow> model_store" where
  "mkdir_exist_ok dir st =
     (if dir \<in> set (map fst (archives st)) then st else st\<lparr>archives := archives st @ [(dir, None)]\<rparr>)"

definition backup_route :: "bool \<Rightarrow> string \<Rightarrow> model_store \<Rightarrow> (pyerror + unit) \<times> model_store" where
  "backup_route user datetime_now st =
     (if \<not> user then (Inl (HTTPException 400), st)
      else
        let destination_dir = ''archive -'' @ datetime_now in
        shutil_copy_into (current_model st) destination_dir (mkdir_exist_ok destination_dir st))"

text \<open>\<^verbatim>\<open>pathlib.Path\<close> has \<^verbatim>\<open>iterdir\<close>; it has no attribute \<^verbatim>\<open>interdir\<close>.\<close>

definition Path_interdir :: "model_store \<Rightarrow> pyerror + string list" where
  "Path_interdir st = Inl (AttributeError ''PosixPath'' ''interdir'')"

definition reverse_backup_route :: "bool \<Rightarrow> model_store \<Rightarrow> (pyerror + unit) \<times> model_store" where
  "reverse_backup_route user st =
     (if \<not> user then (Inl (HTTPException 400), st)
      else
        (case Path_interdir st of
           Inl err \<Rightarrow> (Inl err, st)
         | Inr entries \<Rightarrow>
             (case entries of
                [] \<Rightarrow> (Inl IndexError, st)
              | source_dir # rest \<Rightarrow> (Inl IsADirectoryError, st))))"

section \<open>Example inputs\<close>

text \<open>The requests of a world that went to the restore operation.\<close>

definition restore_calls :: "globals \<Rightarrow> world \<Rightarrow> nat" where
  "restore_calls g w = length (filter (\<lambda>p. fst p = api_url g @ ''/reverse_backup'') (posts w))"

text \<open>
  A configuration and a service for the examples: every Variable is set, the threshold is
  \<open>0.85\<close>, the token request is answered with a token, and every other request with
  status 200 and the JSON object \<open>{"accuracy": a}\<close>.
\<close>

definition g0 :: globals where
  "g0 = \<lparr>admin_username = ''admin'', admin_password = ''pw'', api_url = ''http://api'',
         current_accuracy = ''0.9'', accuracy_threshold = ''0.85''\<rparr>"

definition ok_response :: "real \<Rightarrow> response" where
  "ok_response a = \<lparr>status_code = 200, body_text = ''ok'', body = Some [(''accuracy'', PFloat a)]\<rparr>"

definition token_response :: response where
  "token_response = \<lparr>status_code = 200, body_text = ''ok'',
     body = Some [(''access_token'', PStr ''tok''), (''token_type'', PStr ''bearer'')]\<rparr>"

definition service :: "real \<Rightarrow> nat \<Rightarrow> string \<Rightarrow> pyerror + response" where
  "service a n url = (if url = ''http://api/token'' then Inr token_response else Inr (ok_response a))"

definition env0 :: "real \<Rightarrow> airflow_env" where
  "env0 a = \<lparr>variables = (\<lambda>k. if k = ''accuracy_threshold'' then Some ''0.85'' else Some ''set''),
             float_of_str = (\<lambda>s. if s = ''0.85'' then Inr (85 / 100) else Inl (TypeError ''not modelled'')),
             remote = service a\<rparr>"

definition tok_world :: world where
  "tok_world = \<lparr>posts = [], xcom = [((''get_jwt_token'', ''token''), PStr ''tok'')], logs = []\<rparr>"

text \<open>
  A service that answers the token request with a token and every other request with
  status 500; one that answers every request with a given status and no JSON body; one
  that cannot be reached.
\<close>

definition error_response :: "int \<Rightarrow> response" where
  "error_response c = \<lparr>status_code = c, body_text = ''error'', body = None\<rparr>"

definition env_with :: "(nat \<Rightarrow> string \<Rightarrow> pyerror + response) \<Rightarrow> airflow_env" where
  "env_with r = \<lparr>variables = (\<lambda>k. if k = ''accuracy_threshold'' then Some ''0.85'' else Some ''set''),
                 float_of_str = (\<lambda>s. if s = ''0.85'' then Inr (85 / 100) else Inl (TypeError ''not modelled'')),
                 remote = r\<rparr>"

definition env_reload_fails :: airflow_env where
  "env_reload_fails =
     env_with (\<lambda>n url. if url = ''http://api/token'' then Inr token_response else Inr (error_response 500))"

definition env_status :: "int \<Rightarrow> airflow_env" where
  "env_status c = env_with (\<lambda>n url. Inr (error_response c))"

definition env_unreachable :: airflow_env where
  "env_unreachable = env_with (\<lambda>n url. Inl ConnectionError)"

text \<open>
  The empty world a run starts in, and a model store with two archives and a retrained
  model current.
\<close>

definition world0 :: world where
  "world0 = \<lparr>posts = [], xcom = [], logs = []\<rparr>"

definition store0 :: model_store where
  "store0 = \<lparr>current_model = Some ''retrained model'',
              archives = [(''archive -20240520000000'', Some ''model of 20 May''),
                          (''archive -20240521000000'', Some ''model of 21 May'')]\<rparr>"

section \<open>The gates\<close>

lemma py_bind_lift_Inl [simp]: "py_bind (py_lift (Inl x)) f w = (Inl x, w)"
  by (simp add: py_bind_def py_lift_def)

lemma py_bind_lift_Inr [simp]: "py_bind (py_lift (Inr v)) f w = f v w"
  by (simp add: py_bind_def py_lift_def)

lemma py_bind_return [simp]: "py_bind (py_return v) f w = f v w"
  by (simp add: py_bind_def py_return_def)

lemma py_bind_logging [simp]:
  "py_bind (logging l m) f w = f () (w\<lparr>logs := logs w @ [(l, m)]\<rparr>)"
  by (simp add: py_bind_def logging_def)

lemma py_bind_xcom_push [simp]:
  "py_bind (xcom_push ti k v) f w = f () (w\<lparr>xcom := xcom w @ [((ti, k), v)]\<rparr>)"
  by (simp add: py_bind_def xcom_push_def)

lemma py_bind_xcom_pull [simp]:
  "py_bind (xcom_pull t k) f w =
     f (case map_of (rev (xcom w)) (t, k) of None \<Rightarrow> PNone | Some v \<Rightarrow> v) w"
  by (simp add: py_bind_def xcom_pull_def split: option.splits)

lemma py_bind_requests_post [simp]:
  "py_bind (requests_post e url auth) f w =
     (case remote e (length (posts w)) url of
        Inl x \<Rightarrow> (Inl x, w\<lparr>posts := posts w @ [(url, auth)]\<rparr>)
      | Inr r \<Rightarrow> f r (w\<lparr>posts := posts w @ [(url, auth)]\<rparr>))"
  by (simp add: py_bind_def requests_post_def split: sum.splits)

lemma py_bind_if [simp]:
  "py_bind (if c then m else n) f w = (if c then py_bind m f w else py_bind n f w)"
  by simp

text \<open>
  C1. The post-retrain gate is claimed to select the success path without restoring when
  the re-fetched accuracy reaches the threshold, and to invoke the restore operation once
  and select the failure path otherwise. At a re-fetched accuracy of \<open>0.6\<close> under the
  threshold \<open>0.85\<close>, \<open>validate\<close> issues the accuracy request and then raises
  \<open>AttributeError\<close> on \<^verbatim>\<open>resp_accuracy.values\<close>: it selects no path and sends no request
  to the restore operation.
\<close>

theorem validate_raises_before_gate:
  "validate g0 (env0 (6 / 10)) ''validate'' tok_world =
     (Inl (AttributeError ''Response'' ''values''),
      \<lparr>posts = [(''http://api/accuracy'', Some ''Bearer tok'')],
       xcom = [((''get_jwt_token'', ''token''), PStr ''tok'')],
       logs = [(INFO, ''Accuracy retrieved with success.'')]\<rparr>)
   \<and> restore_calls g0 (snd (validate g0 (env0 (6 / 10)) ''validate'' tok_world)) = 0"
  by (simp add: validate_def Let_def bearer_def py_str_def Response_values_def env0_def
      service_def ok_response_def g0_def tok_world_def restore_calls_def)

text \<open>
  C2. The pre-retrain gate is claimed to compare the fresh accuracy with the threshold
  and to select \<^verbatim>\<open>nope\<close> when it reaches it, \<^verbatim>\<open>backup\<close> otherwise. At an accuracy of
  \<open>0.9\<close> under the threshold \<open>0.85\<close>, \<open>Check_accuracy\<close> issues the accuracy request and
  raises \<open>TypeError\<close> on \<^verbatim>\<open>float(resp_accuracy)\<close>, the response object itself: nothing is
  written to XCom, the threshold is not read and no label is returned.
\<close>

theorem Check_accuracy_raises_before_gate:
  "Check_accuracy g0 (env0 (9 / 10)) ''Check_accuracy'' tok_world =
     (Inl (TypeError ''float() argument must be a string or a real number, not Response''),
      \<lparr>posts = [(''http://api/accuracy'', Some ''Bearer tok'')],
       xcom = [((''get_jwt_token'', ''token''), PStr ''tok'')],
       logs = []\<rparr>)"
  by (simp add: Check_accuracy_def Let_def bearer_def py_str_def float_of_Response_def env0_def
      service_def ok_response_def g0_def tok_world_def)

text \<open>
  Neither gate, nor \<open>retrain\<close>, returns on any input: whatever the service answers, each
  raises; and \<open>validate\<close> sends nothing to the restore operation.
\<close>

lemma Check_accuracy_always_raises: "\<exists>err. fst (Check_accuracy g e ti w) = Inl err"
  by (simp add: Check_accuracy_def Let_def float_of_Response_def split: sum.splits)

lemma retrain_always_raises: "\<exists>err. fst (retrain g e ti w) = Inl err"
  by (simp add: retrain_def Let_def str_status_code_def split: sum.splits)

lemma validate_always_raises: "\<exists>err. fst (validate g e ti w) = Inl err"
  by (simp add: validate_def Let_def Response_values_def split: sum.splits)

lemma validate_never_restores:
  "restore_calls g (snd (validate g e ti w)) = restore_calls g w"
  by (simp add: validate_def Let_def Response_values_def restore_calls_def split: sum.splits)

section \<open>The module\<close>

text \<open>
  C9. Evaluating the module is claimed to build the task graph without raising, its
  dependency statements naming only what the module has bound. The nine operators are
  bound to \<^verbatim>\<open>t1\<close> ... \<^verbatim>\<open>t7_2\<close>; line 401 starts with \<^verbatim>\<open>t_1\<close>, which nothing binds, and
  evaluating the module stops there with \<open>NameError\<close>, before any edge exists.
\<close>

theorem workflow_module_raises_NameError:
  "exec_module workflow_module = Inl (NameError ''t_1'')"
  by (simp add: exec_module_def workflow_module_def operators_def dependencies_def lookup_name_def)


text \<open>
  The statement of line 402 names bound operators only. Evaluated where line 401 stops,
  it would put both e-mail operators under \<open>validate\<close> and nothing under \<open>nope\<close>.
\<close>

lemma line_402_as_written:
  "(case after_operators of
      Inl err \<Rightarrow> False
    | Inr (ns, d) \<Rightarrow>
        (case exec_stmt (ns, d) (dependencies ! 1) of
           Inl err \<Rightarrow> False
         | Inr (ns', d') \<Rightarrow>
             edges d' = [(''backup'', ''retrain''), (''retrain'', ''validate''),
                         (''validate'', ''email_success''), (''validate'', ''email_failure'')]))"
  by (simp add: after_operators_def operators_def dependencies_def lookup_name_def)

section \<open>The restore route\<close>

lemma backup_route_archives:
  "backup_route True ''20240521000000''
     \<lparr>current_model = Some ''model of 21 May'',
      archives = [(''archive -20240520000000'', Some ''model of 20 May'')]\<rparr>
   = (Inr (), \<lparr>current_model = Some ''model of 21 May'',
               archives = [(''archive -20240520000000'', Some ''model of 20 May''),
                           (''archive -20240521000000'', Some ''model of 21 May'')]\<rparr>)"
  by (simp add: backup_route_def mkdir_exist_ok_def shutil_copy_into_def Let_def)

text \<open>
  C8. The restore operation is claimed to replace the current model with the most
  recently archived backup. With two archives in place and a retrained model current,
  the route raises \<open>AttributeError\<close> on \<^verbatim>\<open>Path(...).interdir()\<close> and the store is as it was:
  the current model is still the retrained one, not the archive of 21 May.
\<close>

theorem reverse_backup_route_raises:
  "reverse_backup_route True store0 = (Inl (AttributeError ''PosixPath'' ''interdir''), store0)
   \<and> current_model (snd (reverse_backup_route True store0)) = Some ''retrained model''"
  by (simp add: reverse_backup_route_def Path_interdir_def store0_def)

section \<open>Retries\<close>

lemma count_attempts_trace:
  "length (filter (\<lambda>ev. ev = Attempt tid) (attempts_trace n dl tid)) = n"
  by (induction n dl tid rule: attempts_trace.induct) auto

lemma retry_exhausts:
  assumes "\<And>w. \<exists>err. fst (f w) = Inl err"
  shows "\<exists>err w'. retry n dl tid f w tr = (Inl err, w', tr @ attempts_trace n dl tid)"
proof (induction n arbitrary: w tr)
  case 0
  then show ?case by simp
next
  case (Suc k)
  obtain err w1 where fw: "f w = (Inl err, w1)"
    using assms[of w] by (cases "f w") auto
  show ?case
  proof (cases k)
    case 0
    then show ?thesis by (simp add: fw)
  next
    case (Suc j)
    obtain err' w' where "retry k dl tid f w1 (tr @ [Attempt tid, Wait dl]) =
        (Inl err', w', (tr @ [Attempt tid, Wait dl]) @ attempts_trace k dl tid)"
      using Suc.IH by blast
    then show ?thesis using Suc by (simp add: fw)
  qed
qed

lemma requesting_callables_raise:
  assumes down: "\<And>n url. \<exists>x. remote e n url = Inl x"
    and f: "f \<in> set requesting_callables"
  shows "\<exists>err. fst (f g e ti w) = Inl err"
proof -
  have post: "\<And>url auth (k :: response \<Rightarrow> pyval py) (w :: world).
      \<exists>x. py_bind (requests_post e url auth) k w
      = (Inl x, w\<lparr>posts := posts w @ [(url, auth)]\<rparr>)"
  proof -
    fix url auth and k :: "response \<Rightarrow> pyval py" and w :: world
    obtain x where "remote e (length (posts w)) url = Inl x"
      using down by blast
    then show "\<exists>x. py_bind (requests_post e url auth) k w
        = (Inl x, w\<lparr>posts := posts w @ [(url, auth)]\<rparr>)"
      by simp
  qed
  consider "f = get_jwt_token" | "f = recharge_data" | "f = Check_accuracy"
    | "f = backup" | "f = retrain" | "f = validate"
    using f by (auto simp add: requesting_callables_def)
  then show ?thesis
  proof cases
    case 1
    obtain x where "get_jwt_token g e ti w = (Inl x, w\<lparr>posts := posts w @ [(api_url g @ ''/token'', None)]\<rparr>)"
      unfolding get_jwt_token_def using post by blast
    then show ?thesis using 1 by simp
  next
    case 2
    show ?thesis unfolding 2 recharge_data_def Let_def
      using post by (simp del: py_bind_requests_post) (metis fst_conv)
  next
    case 3
    show ?thesis unfolding 3 by (simp add: Check_accuracy_always_raises)
  next
    case 4
    show ?thesis unfolding 4 backup_def Let_def
      using post by (simp del: py_bind_requests_post) (metis fst_conv)
  next
    case 5
    show ?thesis unfolding 5 by (simp add: retrain_always_raises)
  next
    case 6
    show ?thesis unfolding 6 by (simp add: validate_always_raises)
  qed
qed

text \<open>
  C5. A remote operation that fails on every attempt is claimed to be attempted exactly
  the configured number of times and its node then marked failed. With the reload
  requests answered with status 500 and the DAG's budget of four attempts,
  \<open>recharge_data\<close> is attempted once and its node succeeds: the callable logs the
  status and returns, so there is nothing to retry.
\<close>

theorem failing_reload_attempted_once:
  "run_node (max_attempts dag_default_args) (retry_delay dag_default_args) ''recharge_data''
     (recharge_data g0 env_reload_fails ''recharge_data'') tok_world
   = (Succeeded,
      \<lparr>posts = [(''http://api/raw'', Some ''Bearer tok''), (''http://api/dataset'', Some ''Bearer tok'')],
       xcom = [((''get_jwt_token'', ''token''), PStr ''tok'')],
       logs = [(ERROR, ''Error when importing raw data''), (ERROR, ''Error when processing raw data'')]\<rparr>,
      [Attempt ''recharge_data''])
   \<and> max_attempts dag_default_args = 4"
  by code_simp

text \<open>
  C5, for an operation that cannot be reached. When every request ends in a transport
  error, each callable that issues requests raises on every attempt, and its node is
  attempted exactly as many times as the budget allows, with the fixed delay between two
  attempts, then marked failed, with no further attempt: four attempts, five minutes
  apart, under the DAG's \<^verbatim>\<open>default_args\<close>.
\<close>

theorem retries_exhausted:
  assumes down: "\<And>k url. \<exists>x. remote e k url = Inl x"
    and f: "f \<in> set requesting_callables"
  shows "(\<exists>w'. run_node n dl tid (f g e tid) w = (Failed, w', attempts_trace n dl tid))
       \<and> length (filter (\<lambda>ev. ev = Attempt tid) (attempts_trace n dl tid)) = n"
proof -
  have raises: "\<And>w. \<exists>err. fst (f g e tid w) = Inl err"
    using requesting_callables_raise[OF down f] by blast
  obtain err w' where "retry n dl tid (f g e tid) w [] = (Inl err, w', [] @ attempts_trace n dl tid)"
    using retry_exhausts[of "f g e tid", OF raises] by blast
  then have "run_node n dl tid (f g e tid) w = (Failed, w', attempts_trace n dl tid)"
    by (simp add: run_node_def)
  then show ?thesis
    by (auto simp add: count_attempts_trace)
qed

theorem retries_exhausted_witness:
  "(\<exists>w'. run_node (max_attempts dag_default_args) (retry_delay dag_default_args) ''recharge_data''
           (recharge_data g0 env_unreachable ''recharge_data'') tok_world
        = (Failed, w',
           [Attempt ''recharge_data'', Wait 300, Attempt ''recharge_data'', Wait 300,
            Attempt ''recharge_data'', Wait 300, Attempt ''recharge_data'']))
   \<and> length (filter (\<lambda>ev. ev = Attempt ''recharge_data'')
        (attempts_trace (max_attempts dag_default_args) (retry_delay dag_default_args) ''recharge_data'')) = 4"
proof -
  have down: "\<And>k url. \<exists>x. remote env_unreachable k url = Inl x"
    by (simp add: env_unreachable_def env_with_def)
  have f: "recharge_data \<in> set requesting_callables"
    by (simp add: requesting_callables_def)
  have tr: "attempts_trace (max_attempts dag_default_args) (retry_delay dag_default_args) ''recharge_data''
      = [Attempt ''recharge_data'', Wait 300, Attempt ''recharge_data'', Wait 300,
         Attempt ''recharge_data'', Wait 300, Attempt ''recharge_data'']"
    by (simp add: max_attempts_def dag_default_args_def eval_nat_numeral)
  show ?thesis
    using retries_exhausted[of env_unreachable recharge_data "max_attempts dag_default_args"
        "retry_delay dag_default_args" "''recharge_data''" g0 tok_world, OF down f]
    unfolding tr by (simp add: max_attempts_def dag_default_args_def)
qed

section \<open>Unexpected status codes\<close>

text \<open>
  C6. When the reload requests are answered with an unexpected status code, the
  \<open>recharge_data\<close> node is claimed to fail, the error not being swallowed. With both
  reload requests answered with status 500, \<open>recharge_data\<close> logs the two errors and
  returns \<^verbatim>\<open>None\<close>: it raises nothing that could fail its node.
\<close>

theorem reload_failure_not_raised:
  "recharge_data g0 env_reload_fails ''recharge_data'' tok_world
   = (Inr PNone,
      \<lparr>posts = [(''http://api/raw'', Some ''Bearer tok''), (''http://api/dataset'', Some ''Bearer tok'')],
       xcom = [((''get_jwt_token'', ''token''), PStr ''tok'')],
       logs = [(ERROR, ''Error when importing raw data''), (ERROR, ''Error when processing raw data'')]\<rparr>)"
  by (simp add: recharge_data_def Let_def bearer_def py_str_def py_return_def env_reload_fails_def
      env_with_def error_response_def g0_def tok_world_def)

text \<open>
  C6, as the callable has it. Whatever status codes the two reload requests are answered
  with, \<open>recharge_data\<close> issues both requests, logs one line for each, an error for each
  code other than 200, and returns \<^verbatim>\<open>None\<close> without raising.
\<close>

theorem reload_status_logged_not_raised:
  assumes "remote e (length (posts w)) (api_url g @ ''/raw'') = Inr r1"
    and "remote e (Suc (length (posts w))) (api_url g @ ''/dataset'') = Inr r2"
  shows "recharge_data g e ti w =
     (Inr PNone,
      w\<lparr>posts := posts w @
            [(api_url g @ ''/raw'',
              bearer (case map_of (rev (xcom w)) (''get_jwt_token'', ''token'') of
                        None \<Rightarrow> PNone | Some v \<Rightarrow> v)),
             (api_url g @ ''/dataset'',
              bearer (case map_of (rev (xcom w)) (''get_jwt_token'', ''token'') of
                        None \<Rightarrow> PNone | Some v \<Rightarrow> v))],
         logs := logs w @
            [if status_code r1 = 200 then (INFO, ''Raw data have been imported with success.'')
             else (ERROR, ''Error when importing raw data''),
             if status_code r2 = 200 then (INFO, ''Data have been processed with success'')
             else (ERROR, ''Error when processing raw data'')]\<rparr>)"
  using assms by (simp add: recharge_data_def Let_def py_return_def)

theorem reload_status_logged_not_raised_witness:
  "recharge_data g0 (env_status 503) ''recharge_data'' world0
   = (Inr PNone,
      \<lparr>posts = [(''http://api/raw'', Some ''Bearer None''), (''http://api/dataset'', Some ''Bearer None'')],
       xcom = [],
       logs = [(ERROR, ''Error when importing raw data''), (ERROR, ''Error when processing raw data'')]\<rparr>)"
proof -
  have raw: "remote (env_status 503) (length (posts world0)) (api_url g0 @ ''/raw'')
      = Inr (error_response 503)"
    by (simp add: env_status_def env_with_def)
  have ds: "remote (env_status 503) (Suc (length (posts world0))) (api_url g0 @ ''/dataset'')
      = Inr (error_response 503)"
    by (simp add: env_status_def env_with_def)
  show ?thesis
    using reload_status_logged_not_raised[OF raw ds, of "''recharge_data''"]
    by (simp add: world0_def g0_def error_response_def bearer_def py_str_def)
qed

text \<open>
  C4. When token issuance fails on every attempt, the run is claimed to abort as an
  authentication failure with no downstream node executed. With every request answered
  with status 401, \<open>get_jwt_token\<close> raises nothing: it logs an error and returns
  \<^verbatim>\<open>None\<close>, leaving no token; and \<open>recharge_data\<close>, run on what it leaves, sends both
  its requests, with the header \<^verbatim>\<open>Bearer None\<close>.
\<close>

theorem token_failure_not_fatal:
  "get_jwt_token g0 (env_status 401) ''get_jwt_token'' world0
   = (Inr PNone,
      \<lparr>posts = [(''http://api/token'', None)], xcom = [],
       logs = [(ERROR, ''Error obtaining JWT token'')]\<rparr>)
   \<and> recharge_data g0 (env_status 401) ''recharge_data''
       (snd (get_jwt_token g0 (env_status 401) ''get_jwt_token'' world0))
   = (Inr PNone,
      \<lparr>posts = [(''http://api/token'', None), (''http://api/raw'', Some ''Bearer None''),
                (''http://api/dataset'', Some ''Bearer None'')],
       xcom = [],
       logs = [(ERROR, ''Error obtaining JWT token''), (ERROR, ''Error when importing raw data''),
               (ERROR, ''Error when processing raw data'')]\<rparr>)"
  by (simp add: get_jwt_token_def recharge_data_def Let_def bearer_def py_str_def py_return_def
      env_status_def env_with_def error_response_def g0_def world0_def)

text \<open>
  C4, as the callable has it. When the token request is answered with a status other
  than 200, \<open>get_jwt_token\<close> makes that one request, logs an error, writes no token and
  returns \<^verbatim>\<open>None\<close> without raising; with no token in the context, every request that
  \<open>recharge_data\<close> then sends carries the header \<^verbatim>\<open>Bearer None\<close>.
\<close>

theorem token_failure_logged_not_raised:
  assumes tok: "remote e (length (posts w)) (api_url g @ ''/token'') = Inr r"
    and bad: "status_code r \<noteq> 200"
    and fresh: "xcom w = []"
  shows "get_jwt_token g e ti w =
           (Inr PNone, w\<lparr>posts := posts w @ [(api_url g @ ''/token'', None)],
                         logs := logs w @ [(ERROR, ''Error obtaining JWT token'')]\<rparr>)
       \<and> (posts (snd (recharge_data g e ti' (snd (get_jwt_token g e ti w))))
             = posts w @ [(api_url g @ ''/token'', None), (api_url g @ ''/raw'', Some ''Bearer None'')]
          \<or> posts (snd (recharge_data g e ti' (snd (get_jwt_token g e ti w))))
             = posts w @ [(api_url g @ ''/token'', None), (api_url g @ ''/raw'', Some ''Bearer None''),
                          (api_url g @ ''/dataset'', Some ''Bearer None'')])"
proof -
  have gj: "get_jwt_token g e ti w =
      (Inr PNone, w\<lparr>posts := posts w @ [(api_url g @ ''/token'', None)],
                    logs := logs w @ [(ERROR, ''Error obtaining JWT token'')]\<rparr>)"
    using tok bad by (simp add: get_jwt_token_def py_return_def)
  show ?thesis
    unfolding gj using fresh
    by (simp add: recharge_data_def Let_def bearer_def py_str_def py_return_def split: sum.splits)
qed

theorem token_failure_logged_not_raised_witness:
  "get_jwt_token g0 (env_status 403) ''get_jwt_token'' world0
     = (Inr PNone, \<lparr>posts = [(''http://api/token'', None)], xcom = [],
                    logs = [(ERROR, ''Error obtaining JWT token'')]\<rparr>)
   \<and> posts (snd (recharge_data g0 (env_status 403) ''recharge_data''
        (snd (get_jwt_token g0 (env_status 403) ''get_jwt_token'' world0))))
     = [(''http://api/token'', None), (''http://api/raw'', Some ''Bearer None''),
        (''http://api/dataset'', Some ''Bearer None'')]"
proof -
  have tok: "remote (env_status 403) (length (posts world0)) (api_url g0 @ ''/token'')
      = Inr (error_response 403)"
    by (simp add: env_status_def env_with_def)
  have bad: "status_code (error_response 403) \<noteq> 200"
    by (simp add: error_response_def)
  have fresh: "xcom world0 = []"
    by (simp add: world0_def)
  have three: "posts (snd (recharge_data g0 (env_status 403) ''recharge_data''
        (snd (get_jwt_token g0 (env_status 403) ''get_jwt_token'' world0))))
     = [(''http://api/token'', None), (''http://api/raw'', Some ''Bearer None''),
        (''http://api/dataset'', Some ''Bearer None'')]"
    by (simp add: get_jwt_token_def recharge_data_def Let_def bearer_def py_str_def py_return_def
        env_status_def env_with_def error_response_def g0_def world0_def)
  show ?thesis
    using token_failure_logged_not_raised[OF tok bad fresh, of "''get_jwt_token''" "''recharge_data''"] three
    by (simp add: world0_def g0_def)
qed

section \<open>The run context\<close>

text \<open>
  What each callable writes to XCom. \<open>get_jwt_token\<close> pushes \<^verbatim>\<open>token\<close> under its own
  task id, once, on an invocation that returns, and nothing otherwise. The other callables
  leave XCom as it was: \<open>recharge_data\<close>, \<open>backup\<close> and \<open>nope\<close> push nothing, and
  \<open>Check_accuracy\<close>, \<open>retrain\<close> and \<open>validate\<close>, which each name the key
  \<^verbatim>\<open>current_accuracy\<close> (lines 165, 221 and 249), raise before their push.
\<close>

lemma get_jwt_token_xcom:
  "get_jwt_token g e ti w = (r, w') \<Longrightarrow>
     xcom w' = xcom w \<or> (\<exists>v. r = Inr v \<and> xcom w' = xcom w @ [((ti, ''token''), v)])"
  by (auto simp add: get_jwt_token_def Let_def py_return_def response_json_def
      split: sum.splits if_splits option.splits)

lemma recharge_data_xcom: "xcom (snd (recharge_data g e ti w)) = xcom w"
  by (simp add: recharge_data_def Let_def py_return_def split: sum.splits)

lemma nope_xcom: "xcom (snd (nope g e ti w)) = xcom w"
  by (simp add: nope_def py_return_def)

lemma backup_xcom: "xcom (snd (backup g e ti w)) = xcom w"
  by (simp add: backup_def Let_def py_return_def split: sum.splits)

lemma Check_accuracy_xcom: "xcom (snd (Check_accuracy g e ti w)) = xcom w"
  by (simp add: Check_accuracy_def Let_def float_of_Response_def split: sum.splits)

lemma retrain_xcom: "xcom (snd (retrain g e ti w)) = xcom w"
  by (simp add: retrain_def Let_def str_status_code_def split: sum.splits)

lemma validate_xcom: "xcom (snd (validate g e ti w)) = xcom w"
  by (simp add: validate_def Let_def Response_values_def split: sum.splits)

end
